theory Spec2Isabelle
  imports Complex_Main
begin

section \<open>Common types\<close>

text \<open>
  A \<open>double\<close> is modelled as a real number: the statements below are about the
  arithmetic the code writes down, not about rounding. A dynamically sized
  \<open>Vector\<close> is a list of coefficients and a dynamically sized \<open>Matrix\<close> a list of
  rows. The fixed-size types \<open>Vector3\<close>, \<open>Vector5\<close> and \<open>Point2\<close> are tuples, so that
  their size is part of the type, as it is in the source.
\<close>

type_synonym Key = nat
type_synonym Vector = "real list"
type_synonym Matrix = "real list list"
type_synonym Vector3 = "real \<times> real \<times> real"
type_synonym Vector5 = "real \<times> real \<times> real \<times> real \<times> real"
type_synonym Point2 = "real \<times> real"

text \<open>
  The source has no \<open>throw\<close> of its own. \<open>EigenAssertion\<close> is the bounds assertion of
  the vector library on a coefficient or a block that does not fit;
  \<open>InvalidArgument\<close> is the rejection the specification speaks of.
\<close>

datatype error = InvalidArgument | EigenAssertion

section \<open>VelocityConstraint3\<close>

text \<open>\<open>Matrix::Identity(r, c)\<close>, unary minus and the product with a scalar.\<close>

definition Identity :: "nat \<Rightarrow> nat \<Rightarrow> Matrix" where
  "Identity r c = map (\<lambda>i. map (\<lambda>j. if i = j then 1 else 0) [0..<c]) [0..<r]"

definition Matrix_uminus :: "Matrix \<Rightarrow> Matrix" where
  "Matrix_uminus m = map (map uminus) m"

definition Matrix_times_scalar :: "Matrix \<Rightarrow> real \<Rightarrow> Matrix" where
  "Matrix_times_scalar m k = map (map (\<lambda>x. x * k)) m"

text \<open>
  Modelled from the spec: \<open>noiseModel::Constrained::All\<close> is not among the sources.
  The specification describes the weighting model as an external component to
  which the strength is forwarded, opaque; the model records the dimension and
  the strength it was built from.
\<close>

datatype SharedNoiseModel = Constrained_All nat real

text \<open>
  The factor, with the noise model and the keys its base class holds. A name
  cannot end with an underscore here, so the member \<open>dt_\<close> is the field \<open>VC3_dt\<close>
  (and below \<open>U_\<close> is \<open>FM_U\<close>, \<open>E_\<close> is \<open>SFM_E\<close>, and so on).
\<close>

record VelocityConstraint3 =
  VC3_noiseModel :: SharedNoiseModel
  VC3_keys :: "Key list"
  VC3_dt :: real

text \<open>
  The constructor: \<open>Base(noiseModel::Constrained::All(1, std::abs(mu)), key1, key2,
  velKey), dt_(dt)\<close>. It has no failing path; the result is a sum so that a
  rejection can be spoken of at all.
\<close>

definition new_VelocityConstraint3 ::
  "Key \<Rightarrow> Key \<Rightarrow> Key \<Rightarrow> real \<Rightarrow> real \<Rightarrow> error + VelocityConstraint3" where
  "new_VelocityConstraint3 key1 key2 velKey dt mu =
     Inr \<lparr>VC3_noiseModel = Constrained_All 1 \<bar>mu\<bar>, VC3_keys = [key1, key2, velKey], VC3_dt = dt\<rparr>"

text \<open>The default argument \<open>mu = 1000.0\<close>.\<close>

definition new_VelocityConstraint3_default ::
  "Key \<Rightarrow> Key \<Rightarrow> Key \<Rightarrow> real \<Rightarrow> error + VelocityConstraint3" where
  "new_VelocityConstraint3_default key1 key2 velKey dt =
     new_VelocityConstraint3 key1 key2 velKey dt 1000"

text \<open>
  \<open>evaluateError\<close>. An \<open>OptionalMatrixType\<close> is a pointer to a matrix: \<open>None\<close> is
  the null pointer, \<open>Some m\<close> a pointer to a matrix that holds \<open>m\<close>. The function
  returns the residual together with what the three pointers hold afterwards.
\<close>

definition evaluateError ::
  "VelocityConstraint3 \<Rightarrow> real \<Rightarrow> real \<Rightarrow> real \<Rightarrow>
   Matrix option \<Rightarrow> Matrix option \<Rightarrow> Matrix option \<Rightarrow>
   Vector \<times> Matrix option \<times> Matrix option \<times> Matrix option" where
  "evaluateError f x1 x2 v H1 H2 H3 =
     (let p = 1;
          H1' = (if H1 \<noteq> None then Some (Identity p p) else H1);
          H2' = (if H2 \<noteq> None then Some (Matrix_uminus (Identity p p)) else H2);
          H3' = (if H3 \<noteq> None then Some (Matrix_times_scalar (Identity p p) (VC3_dt f)) else H3)
      in ([x1 + v * VC3_dt f - x2], H1', H2', H3'))"

section \<open>Fixed-size matrices\<close>

text \<open>
  A \<open>Matrix3\<close> lists its nine coefficients row by row, in the order in which the
  comma initialiser \<open>Ka << fa_, 0, ca_.x(), 0, fa_, ca_.y(), 0, 0, 1\<close> takes them.
\<close>

datatype Matrix3 = Matrix3 real real real real real real real real real

definition Matrix3_coeff :: "Matrix3 \<Rightarrow> nat \<Rightarrow> nat \<Rightarrow> real" where
  "Matrix3_coeff m i j =
     (case m of Matrix3 m00 m01 m02 m10 m11 m12 m20 m21 m22 \<Rightarrow>
        [m00, m01, m02, m10, m11, m12, m20, m21, m22] ! (3 * i + j))"

definition Matrix3_Identity :: Matrix3 where
  "Matrix3_Identity = Matrix3 1 0 0 0 1 0 0 0 1"

text \<open>The dense product \<open>a * b\<close>.\<close>

definition Matrix3_times :: "Matrix3 \<Rightarrow> Matrix3 \<Rightarrow> Matrix3" where
  "Matrix3_times a b =
     (case a of Matrix3 a00 a01 a02 a10 a11 a12 a20 a21 a22 \<Rightarrow>
      case b of Matrix3 b00 b01 b02 b10 b11 b12 b20 b21 b22 \<Rightarrow>
        Matrix3
          (a00 * b00 + a01 * b10 + a02 * b20)
          (a00 * b01 + a01 * b11 + a02 * b21)
          (a00 * b02 + a01 * b12 + a02 * b22)
          (a10 * b00 + a11 * b10 + a12 * b20)
          (a10 * b01 + a11 * b11 + a12 * b21)
          (a10 * b02 + a11 * b12 + a12 * b22)
          (a20 * b00 + a21 * b10 + a22 * b20)
          (a20 * b01 + a21 * b11 + a22 * b21)
          (a20 * b02 + a21 * b12 + a22 * b22))"

text \<open>\<open>m.matrix()\<close> of a dense matrix is the matrix itself.\<close>

definition Matrix3_matrix :: "Matrix3 \<Rightarrow> Matrix3" where
  "Matrix3_matrix m = m"

definition Matrix3_transposed :: "Matrix3 \<Rightarrow> Matrix3" where
  "Matrix3_transposed a =
     (case a of Matrix3 a00 a01 a02 a10 a11 a12 a20 a21 a22 \<Rightarrow>
        Matrix3 a00 a10 a20 a01 a11 a21 a02 a12 a22)"

text \<open>
  \<open>a * d.asDiagonal()\<close>: the vector library forms no dense diagonal matrix, the
  product scales column \<open>j\<close> of \<open>a\<close> by the coefficient \<open>j\<close> of \<open>d\<close>.
\<close>

definition Matrix3_times_asDiagonal :: "Matrix3 \<Rightarrow> Vector3 \<Rightarrow> Matrix3" where
  "Matrix3_times_asDiagonal a d =
     (case a of Matrix3 a00 a01 a02 a10 a11 a12 a20 a21 a22 \<Rightarrow>
      case d of (d0, d1, d2) \<Rightarrow>
        Matrix3 (a00 * d0) (a01 * d1) (a02 * d2)
                (a10 * d0) (a11 * d1) (a12 * d2)
                (a20 * d0) (a21 * d1) (a22 * d2))"

text \<open>
  \<open>m.inverse()\<close> of a fixed-size 3\<times>3 matrix, as the vector library computes it:
  the cofactors \<open>cofactor_3x3<i,j>\<close> with cyclic indices, the determinant from the
  cofactors of column 0, and the transposed cofactor matrix scaled by \<open>1 / det\<close>.
  For a zero determinant the source yields coefficients that are not finite;
  they have no real value, so the model returns \<open>None\<close> there.
\<close>

definition cofactor_3x3 :: "Matrix3 \<Rightarrow> nat \<Rightarrow> nat \<Rightarrow> real" where
  "cofactor_3x3 m i j =
     (let i1 = (i + 1) mod 3; i2 = (i + 2) mod 3;
          j1 = (j + 1) mod 3; j2 = (j + 2) mod 3
      in Matrix3_coeff m i1 j1 * Matrix3_coeff m i2 j2
         - Matrix3_coeff m i1 j2 * Matrix3_coeff m i2 j1)"

definition Matrix3_determinant :: "Matrix3 \<Rightarrow> real" where
  "Matrix3_determinant m =
     cofactor_3x3 m 0 0 * Matrix3_coeff m 0 0
     + cofactor_3x3 m 1 0 * Matrix3_coeff m 1 0
     + cofactor_3x3 m 2 0 * Matrix3_coeff m 2 0"

definition Matrix3_inverse :: "Matrix3 \<Rightarrow> Matrix3 option" where
  "Matrix3_inverse m =
     (let det = Matrix3_determinant m in
      if det = 0 then None
      else let invdet = 1 / det in
        Some (Matrix3
          (cofactor_3x3 m 0 0 * invdet) (cofactor_3x3 m 1 0 * invdet) (cofactor_3x3 m 2 0 * invdet)
          (cofactor_3x3 m 0 1 * invdet) (cofactor_3x3 m 1 1 * invdet) (cofactor_3x3 m 2 1 * invdet)
          (cofactor_3x3 m 0 2 * invdet) (cofactor_3x3 m 1 2 * invdet) (cofactor_3x3 m 2 2 * invdet)))"

section \<open>Blocks and coefficients of a dynamic vector\<close>

text \<open>
  \<open>delta.head<3>()\<close>, \<open>delta.tail<3>()\<close>, \<open>delta.head<5>()\<close> and \<open>delta(i)\<close> read a
  dynamic vector. The source checks no length; the vector library asserts that
  the block or the index fits.
\<close>

definition head3 :: "Vector \<Rightarrow> error + Vector3" where
  "head3 d = (if 3 \<le> length d then Inr (d ! 0, d ! 1, d ! 2) else Inl EigenAssertion)"

definition tail3 :: "Vector \<Rightarrow> error + Vector3" where
  "tail3 d =
     (let n = length d in
      if 3 \<le> n then Inr (d ! (n - 3), d ! (n - 2), d ! (n - 1)) else Inl EigenAssertion)"

definition head5 :: "Vector \<Rightarrow> error + Vector5" where
  "head5 d =
     (if 5 \<le> length d then Inr (d ! 0, d ! 1, d ! 2, d ! 3, d ! 4) else Inl EigenAssertion)"

definition coeff :: "Vector \<Rightarrow> nat \<Rightarrow> error + real" where
  "coeff d i = (if i < length d then Inr (d ! i) else Inl EigenAssertion)"

text \<open>
  The assignments \<open>result.head<3>() = v\<close>, \<open>result.tail<3>() = v\<close> and
  \<open>result.head<5>() = v\<close>; they are only applied to the \<open>Vector result(7)\<close> of
  \<open>localCoordinates\<close>, where they fit.
\<close>

definition set_head3 :: "Vector \<Rightarrow> Vector3 \<Rightarrow> Vector" where
  "set_head3 r v = (case v of (a, b, c) \<Rightarrow> r[0 := a, 1 := b, 2 := c])"

definition set_tail3 :: "Vector \<Rightarrow> Vector3 \<Rightarrow> Vector" where
  "set_tail3 r v =
     (case v of (a, b, c) \<Rightarrow>
        let n = length r in r[n - 3 := a, n - 2 := b, n - 1 := c])"

definition set_head5 :: "Vector \<Rightarrow> Vector5 \<Rightarrow> Vector" where
  "set_head5 r v =
     (case v of (a, b, c, d, e) \<Rightarrow> r[0 := a, 1 := b, 2 := c, 3 := d, 4 := e])"

section \<open>The leaf manifolds\<close>

text \<open>
  \<open>Rot3\<close> and \<open>EssentialMatrix\<close> are not among the sources; the two classes use
  them through a handful of member functions only. The model takes the type of
  rotations and its member functions as a parameter, and likewise for the
  essential matrices. \<open>matrix()\<close> and \<open>transpose()\<close> of a rotation both return a
  \<open>Matrix3\<close>; \<open>retract\<close> takes and \<open>localCoordinates\<close> returns a fixed-size tangent
  vector, of size 3 for a rotation and 5 for an essential matrix.
\<close>

record 'r Rot3_ops =
  Rot3_matrix :: "'r \<Rightarrow> Matrix3"
  Rot3_transpose :: "'r \<Rightarrow> Matrix3"
  Rot3_equals :: "'r \<Rightarrow> 'r \<Rightarrow> real \<Rightarrow> bool"
  Rot3_localCoordinates :: "'r \<Rightarrow> 'r \<Rightarrow> Vector3"
  Rot3_retract :: "'r \<Rightarrow> Vector3 \<Rightarrow> 'r"

record 'e EssentialMatrix_ops =
  EssentialMatrix_matrix :: "'e \<Rightarrow> Matrix3"
  EssentialMatrix_equals :: "'e \<Rightarrow> 'e \<Rightarrow> real \<Rightarrow> bool"
  EssentialMatrix_localCoordinates :: "'e \<Rightarrow> 'e \<Rightarrow> Vector5"
  EssentialMatrix_retract :: "'e \<Rightarrow> Vector5 \<Rightarrow> 'e"

section \<open>FundamentalMatrix\<close>

text \<open>The members \<open>U_\<close>, \<open>s_\<close> and \<open>V_\<close>.\<close>

record 'r FundamentalMatrix =
  FM_U :: 'r
  FM_s :: real
  FM_V :: 'r

definition new_FundamentalMatrix :: "'r \<Rightarrow> real \<Rightarrow> 'r \<Rightarrow> 'r FundamentalMatrix" where
  "new_FundamentalMatrix U s V = \<lparr>FM_U = U, FM_s = s, FM_V = V\<rparr>"

text \<open>
  \<open>U_.matrix() * Vector3(1, s_, 1).asDiagonal() * V_.transpose().matrix()\<close>.
\<close>

definition FM_matrix :: "'r Rot3_ops \<Rightarrow> 'r FundamentalMatrix \<Rightarrow> Matrix3" where
  "FM_matrix R F =
     Matrix3_times
       (Matrix3_times_asDiagonal (Rot3_matrix R (FM_U F)) (1, FM_s F, 1))
       (Matrix3_matrix (Rot3_transpose R (FM_V F)))"

definition FM_equals ::
  "'r Rot3_ops \<Rightarrow> 'r FundamentalMatrix \<Rightarrow> 'r FundamentalMatrix \<Rightarrow> real \<Rightarrow> bool" where
  "FM_equals R F other tol =
     (Rot3_equals R (FM_U F) (FM_U other) tol \<and> \<bar>FM_s F - FM_s other\<bar> < tol \<and>
      Rot3_equals R (FM_V F) (FM_V other) tol)"

definition FM_dimension :: nat where
  "FM_dimension = 7"

definition FM_Dim :: nat where
  "FM_Dim = FM_dimension"

definition FM_dim :: "'r FundamentalMatrix \<Rightarrow> nat" where
  "FM_dim F = FM_dimension"

text \<open>
  \<open>localCoordinates\<close> fills a \<open>Vector result(7)\<close>, whose coefficients are all
  written before the vector is returned; the model starts from zeros.
\<close>

definition FM_localCoordinates ::
  "'r Rot3_ops \<Rightarrow> 'r FundamentalMatrix \<Rightarrow> 'r FundamentalMatrix \<Rightarrow> Vector" where
  "FM_localCoordinates R F G =
     (let result = replicate 7 0;
          result = set_head3 result (Rot3_localCoordinates R (FM_U F) (FM_U G));
          result = result[3 := FM_s G - FM_s F];
          result = set_tail3 result (Rot3_localCoordinates R (FM_V F) (FM_V G))
      in result)"

definition FM_retract ::
  "'r Rot3_ops \<Rightarrow> 'r FundamentalMatrix \<Rightarrow> Vector \<Rightarrow> error + 'r FundamentalMatrix" where
  "FM_retract R F delta =
     (case head3 delta of Inl e \<Rightarrow> Inl e | Inr h \<Rightarrow>
      let newU = Rot3_retract R (FM_U F) h in
      case coeff delta 3 of Inl e \<Rightarrow> Inl e | Inr d3 \<Rightarrow>
      let newS = FM_s F + d3 in
      case tail3 delta of Inl e \<Rightarrow> Inl e | Inr t \<Rightarrow>
      let newV = Rot3_retract R (FM_V F) t in
      Inr (new_FundamentalMatrix newU newS newV))"

section \<open>SimpleFundamentalMatrix\<close>

text \<open>The members \<open>E_\<close>, \<open>fa_\<close>, \<open>fb_\<close>, \<open>ca_\<close> and \<open>cb_\<close>.\<close>

record 'e SimpleFundamentalMatrix =
  SFM_E :: 'e
  SFM_fa :: real
  SFM_fb :: real
  SFM_ca :: Point2
  SFM_cb :: Point2

definition new_SimpleFundamentalMatrix ::
  "'e \<Rightarrow> real \<Rightarrow> real \<Rightarrow> Point2 \<Rightarrow> Point2 \<Rightarrow> 'e SimpleFundamentalMatrix" where
  "new_SimpleFundamentalMatrix E fa fb ca cb =
     \<lparr>SFM_E = E, SFM_fa = fa, SFM_fb = fb, SFM_ca = ca, SFM_cb = cb\<rparr>"

definition Point2_x :: "Point2 \<Rightarrow> real" where
  "Point2_x p = fst p"

definition Point2_y :: "Point2 \<Rightarrow> real" where
  "Point2_y p = snd p"

definition Point2_minus :: "Point2 \<Rightarrow> Point2 \<Rightarrow> Point2" where
  "Point2_minus p q = (fst p - fst q, snd p - snd q)"

definition Point2_norm :: "Point2 \<Rightarrow> real" where
  "Point2_norm p = sqrt (fst p * fst p + snd p * snd p)"

text \<open>The two calibration matrices that \<open>matrix()\<close> builds.\<close>

definition SFM_Ka :: "'e SimpleFundamentalMatrix \<Rightarrow> Matrix3" where
  "SFM_Ka F =
     Matrix3 (SFM_fa F) 0 (Point2_x (SFM_ca F)) 0 (SFM_fa F) (Point2_y (SFM_ca F)) 0 0 1"

definition SFM_Kb :: "'e SimpleFundamentalMatrix \<Rightarrow> Matrix3" where
  "SFM_Kb F =
     Matrix3 (SFM_fb F) 0 (Point2_x (SFM_cb F)) 0 (SFM_fb F) (Point2_y (SFM_cb F)) 0 0 1"

definition SFM_matrix ::
  "'e EssentialMatrix_ops \<Rightarrow> 'e SimpleFundamentalMatrix \<Rightarrow> Matrix3 option" where
  "SFM_matrix E F =
     (let Ka = SFM_Ka F; Kb = SFM_Kb F in
      case Matrix3_inverse Kb of
        None \<Rightarrow> None
      | Some Kb_inverse \<Rightarrow>
          Some (Matrix3_times (Matrix3_times Ka (EssentialMatrix_matrix E (SFM_E F))) Kb_inverse))"

definition SFM_equals ::
  "'e EssentialMatrix_ops \<Rightarrow> 'e SimpleFundamentalMatrix \<Rightarrow> 'e SimpleFundamentalMatrix \<Rightarrow>
   real \<Rightarrow> bool" where
  "SFM_equals E F other tol =
     (EssentialMatrix_equals E (SFM_E F) (SFM_E other) tol \<and>
      \<bar>SFM_fa F - SFM_fa other\<bar> < tol \<and> \<bar>SFM_fb F - SFM_fb other\<bar> < tol \<and>
      Point2_norm (Point2_minus (SFM_ca F) (SFM_ca other)) < tol \<and>
      Point2_norm (Point2_minus (SFM_cb F) (SFM_cb other)) < tol)"

definition SFM_dimension :: nat where
  "SFM_dimension = 7"

definition SFM_Dim :: nat where
  "SFM_Dim = SFM_dimension"

definition SFM_dim :: "'e SimpleFundamentalMatrix \<Rightarrow> nat" where
  "SFM_dim F = SFM_dimension"

definition SFM_localCoordinates ::
  "'e EssentialMatrix_ops \<Rightarrow> 'e SimpleFundamentalMatrix \<Rightarrow> 'e SimpleFundamentalMatrix \<Rightarrow>
   Vector" where
  "SFM_localCoordinates E F G =
     (let result = replicate 7 0;
          result = set_head5 result (EssentialMatrix_localCoordinates E (SFM_E F) (SFM_E G));
          result = result[5 := SFM_fa G - SFM_fa F];
          result = result[6 := SFM_fb G - SFM_fb F]
      in result)"

definition SFM_retract ::
  "'e EssentialMatrix_ops \<Rightarrow> 'e SimpleFundamentalMatrix \<Rightarrow> Vector \<Rightarrow>
   error + 'e SimpleFundamentalMatrix" where
  "SFM_retract E F delta =
     (case head5 delta of Inl e \<Rightarrow> Inl e | Inr h \<Rightarrow>
      let newE = EssentialMatrix_retract E (SFM_E F) h in
      case coeff delta 5 of Inl e \<Rightarrow> Inl e | Inr d5 \<Rightarrow>
      let newFa = SFM_fa F + d5 in
      case coeff delta 6 of Inl e \<Rightarrow> Inl e | Inr d6 \<Rightarrow>
      let newFb = SFM_fb F + d6 in
      Inr (new_SimpleFundamentalMatrix newE newFa newFb (SFM_ca F) (SFM_cb F)))"

section \<open>Notions of the specification\<close>

text \<open>
  Agreement within a tolerance: every coefficient of the one vector (or matrix)
  is within \<open>tol\<close> of the coefficient of the other. With \<open>tol = 0\<close> it is equality.
\<close>

definition Vector3_near :: "real \<Rightarrow> Vector3 \<Rightarrow> Vector3 \<Rightarrow> bool" where
  "Vector3_near tol v w =
     (case v of (a, b, c) \<Rightarrow> case w of (a', b', c') \<Rightarrow>
        \<bar>a - a'\<bar> \<le> tol \<and> \<bar>b - b'\<bar> \<le> tol \<and> \<bar>c - c'\<bar> \<le> tol)"

definition Vector5_near :: "real \<Rightarrow> Vector5 \<Rightarrow> Vector5 \<Rightarrow> bool" where
  "Vector5_near tol v w =
     (case v of (a, b, c, d, e) \<Rightarrow> case w of (a', b', c', d', e') \<Rightarrow>
        \<bar>a - a'\<bar> \<le> tol \<and> \<bar>b - b'\<bar> \<le> tol \<and> \<bar>c - c'\<bar> \<le> tol \<and>
        \<bar>d - d'\<bar> \<le> tol \<and> \<bar>e - e'\<bar> \<le> tol)"

definition Vector_near :: "real \<Rightarrow> Vector \<Rightarrow> Vector \<Rightarrow> bool" where
  "Vector_near tol v w = list_all2 (\<lambda>x y. \<bar>x - y\<bar> \<le> tol) v w"

definition Matrix3_near :: "real \<Rightarrow> Matrix3 \<Rightarrow> Matrix3 \<Rightarrow> bool" where
  "Matrix3_near tol a b =
     (case a of Matrix3 a00 a01 a02 a10 a11 a12 a20 a21 a22 \<Rightarrow>
      case b of Matrix3 b00 b01 b02 b10 b11 b12 b20 b21 b22 \<Rightarrow>
        Vector3_near tol (a00, a01, a02) (b00, b01, b02) \<and>
        Vector3_near tol (a10, a11, a12) (b10, b11, b12) \<and>
        Vector3_near tol (a20, a21, a22) (b20, b21, b22))"

text \<open>
  The dense matrix \<open>diag(d0, d1, d2)\<close> that the specification multiplies with;
  the source never forms it.
\<close>

definition diag3 :: "Vector3 \<Rightarrow> Matrix3" where
  "diag3 d = (case d of (d0, d1, d2) \<Rightarrow> Matrix3 d0 0 0 0 d1 0 0 0 d2)"

section \<open>A chart to evaluate with\<close>

text \<open>
  The statements below hold for every type of rotations and of essential
  matrices. To evaluate them at concrete inputs, the parameters are
  instantiated with first-order charts: a rotation is its matrix,
  \<open>retract r v = r (I + [v]\<^sub>\<times>)\<close> and \<open>localCoordinates r q\<close> is the vector of the skew
  part of \<open>r\<^sup>T q\<close>; an essential matrix is a rotation with a direction \<open>t\<close>, its
  matrix is \<open>[t]\<^sub>\<times> r\<close>, and its chart moves the rotation as above and the first two
  coefficients of the direction.
\<close>

definition Matrix3_plus :: "Matrix3 \<Rightarrow> Matrix3 \<Rightarrow> Matrix3" where
  "Matrix3_plus a b =
     (case a of Matrix3 a00 a01 a02 a10 a11 a12 a20 a21 a22 \<Rightarrow>
      case b of Matrix3 b00 b01 b02 b10 b11 b12 b20 b21 b22 \<Rightarrow>
        Matrix3 (a00 + b00) (a01 + b01) (a02 + b02)
                (a10 + b10) (a11 + b11) (a12 + b12)
                (a20 + b20) (a21 + b21) (a22 + b22))"

definition skewSymmetric :: "Vector3 \<Rightarrow> Matrix3" where
  "skewSymmetric w = (case w of (wx, wy, wz) \<Rightarrow> Matrix3 0 (- wz) wy wz 0 (- wx) (- wy) wx 0)"

definition skew_part :: "Matrix3 \<Rightarrow> Vector3" where
  "skew_part m =
     (case m of Matrix3 m00 m01 m02 m10 m11 m12 m20 m21 m22 \<Rightarrow>
        ((m21 - m12) / 2, (m02 - m20) / 2, (m10 - m01) / 2))"

definition first_order_Rot3 :: "Matrix3 Rot3_ops" where
  "first_order_Rot3 =
     \<lparr>Rot3_matrix = (\<lambda>r. r),
      Rot3_transpose = Matrix3_transposed,
      Rot3_equals = (\<lambda>r q tol. Matrix3_near tol r q),
      Rot3_localCoordinates = (\<lambda>r q. skew_part (Matrix3_times (Matrix3_transposed r) q)),
      Rot3_retract = (\<lambda>r v. Matrix3_times r (Matrix3_plus Matrix3_Identity (skewSymmetric v)))\<rparr>"

definition first_order_EssentialMatrix :: "(Matrix3 \<times> Vector3) EssentialMatrix_ops" where
  "first_order_EssentialMatrix =
     \<lparr>EssentialMatrix_matrix = (\<lambda>e. case e of (r, t) \<Rightarrow> Matrix3_times (skewSymmetric t) r),
      EssentialMatrix_equals = (\<lambda>e e' tol. case e of (r, t) \<Rightarrow> case e' of (r', t') \<Rightarrow>
         Matrix3_near tol r r' \<and> Vector3_near tol t t'),
      EssentialMatrix_localCoordinates = (\<lambda>e e'. case e of (r, t0, t1, t2) \<Rightarrow>
         case e' of (r', u0, u1, u2) \<Rightarrow>
         case Rot3_localCoordinates first_order_Rot3 r r' of (a, b, c) \<Rightarrow>
           (a, b, c, u0 - t0, u1 - t1)),
      EssentialMatrix_retract = (\<lambda>e v. case e of (r, t0, t1, t2) \<Rightarrow>
         case v of (a, b, c, x, y) \<Rightarrow>
           (Rot3_retract first_order_Rot3 r (a, b, c), t0 + x, t1 + y, t2))\<rparr>"

definition quarter_turn :: Matrix3 where
  "quarter_turn = Matrix3 0 (- 1) 0 1 0 0 0 0 1"

section \<open>Concrete inputs\<close>

text \<open>
  A general-form parameter whose left rotation is a quarter turn about the third
  axis, a reduced-form parameter with that rotation and the direction \<open>(0, 0, 1)\<close>,
  and a small tangent vector.
\<close>

definition FM_example :: "Matrix3 FundamentalMatrix" where
  "FM_example = \<lparr>FM_U = quarter_turn, FM_s = 2, FM_V = Matrix3_Identity\<rparr>"

definition SFM_example :: "(Matrix3 \<times> Vector3) SimpleFundamentalMatrix" where
  "SFM_example =
     \<lparr>SFM_E = (quarter_turn, 0, 0, 1), SFM_fa = 500, SFM_fb = 400,
      SFM_ca = (320, 240), SFM_cb = (300, 200)\<rparr>"

definition delta_example :: Vector where
  "delta_example = [1 / 1000, 0, 2 / 1000, 1 / 2, 0, 3 / 1000, 0]"

section \<open>Properties of VelocityConstraint3\<close>

lemma Identity_1: "Identity (Suc 0) (Suc 0) = [[1]]"
  by (simp add: Identity_def)

lemma evaluateError_residual:
  "fst (evaluateError f x1 x2 v H1 H2 H3) = [x1 + v * VC3_dt f - x2]"
  by (simp add: evaluateError_def Let_def)

lemma evaluateError_H1:
  "fst (snd (evaluateError f x1 x2 v (Some a) H2 H3)) = Some [[1]]"
  by (simp add: evaluateError_def Let_def Identity_1)

lemma evaluateError_H2:
  "fst (snd (snd (evaluateError f x1 x2 v H1 (Some b) H3))) = Some [[-1]]"
  by (simp add: evaluateError_def Let_def Identity_1 Matrix_uminus_def)

lemma evaluateError_H3:
  "snd (snd (snd (evaluateError f x1 x2 v H1 H2 (Some c)))) = Some [[VC3_dt f]]"
  by (simp add: evaluateError_def Let_def Identity_1 Matrix_times_scalar_def)

lemma evaluateError_not_requested:
  "evaluateError f x1 x2 v None None None = ([x1 + v * VC3_dt f - x2], None, None, None)"
  by (simp add: evaluateError_def Let_def)

text \<open>
  C3. For every factor and every operating point, \<open>evaluateError\<close> returns the
  residual \<open>[x1 + v * dt - x2]\<close> of length one. Each Jacobian that is requested
  is the constant \<open>[1]\<close> for \<open>x1\<close>, \<open>[-1]\<close> for \<open>x2\<close> and \<open>[dt]\<close> for \<open>v\<close>, whatever the
  operating point and whatever else is requested. The factor built with
  \<open>dt = 0.1\<close> has residual \<open>[0]\<close> at \<open>x1 = 2.0\<close>, \<open>x2 = 2.2\<close>, \<open>v = 2.0\<close>.
\<close>

theorem C3_evaluateError_residual_and_jacobians:
  "fst (evaluateError f x1 x2 v H1 H2 H3) = [x1 + v * VC3_dt f - x2]
   \<and> length (fst (evaluateError f x1 x2 v H1 H2 H3)) = 1
   \<and> fst (snd (evaluateError f x1 x2 v (Some a) H2 H3)) = Some [[1]]
   \<and> fst (snd (snd (evaluateError f x1 x2 v H1 (Some b) H3))) = Some [[-1]]
   \<and> snd (snd (snd (evaluateError f x1 x2 v H1 H2 (Some c)))) = Some [[VC3_dt f]]
   \<and> (\<exists>g. new_VelocityConstraint3 key1 key2 velKey (1 / 10) mu = Inr g
          \<and> VC3_dt g = 1 / 10
          \<and> fst (evaluateError g 2 (22 / 10) 2 H1 H2 H3) = [0])"
proof -
  have "\<exists>g. new_VelocityConstraint3 key1 key2 velKey (1 / 10) mu = Inr g
          \<and> VC3_dt g = 1 / 10
          \<and> fst (evaluateError g 2 (22 / 10) 2 H1 H2 H3) = [0]"
    by (simp add: new_VelocityConstraint3_def evaluateError_residual)
  then show ?thesis
    by (simp only: evaluateError_residual evaluateError_H1 evaluateError_H2
        evaluateError_H3) simp
qed

text \<open>
  C9. Whatever subset of the three Jacobians is requested, the residual is the
  one returned when none is requested.
\<close>

theorem C9_residual_independent_of_requests:
  "fst (evaluateError f x1 x2 v H1 H2 H3) = fst (evaluateError f x1 x2 v None None None)"
  by (simp add: evaluateError_residual)

text \<open>
  C10. For every choice of keys, time step and strength \<open>mu\<close>, negative and zero
  included, the constructor accepts \<open>mu\<close> and builds the constrained noise model
  from \<open>\<bar>mu\<bar>\<close>: the factor built with \<open>mu\<close> is the factor built with \<open>\<bar>mu\<bar>\<close>, so
  the two evaluate alike.
\<close>

theorem C10_constructor_uses_abs_mu:
  "new_VelocityConstraint3 key1 key2 velKey dt mu =
     new_VelocityConstraint3 key1 key2 velKey dt \<bar>mu\<bar>
   \<and> (\<exists>f. new_VelocityConstraint3 key1 key2 velKey dt mu = Inr f
          \<and> VC3_noiseModel f = Constrained_All 1 \<bar>mu\<bar>
          \<and> new_VelocityConstraint3 key1 key2 velKey dt \<bar>mu\<bar> = Inr f)"
  by (simp add: new_VelocityConstraint3_def)

text \<open>
  C8, as stated, fails: the constructor built with the negative strength
  \<open>-5\<close> is not rejected, it returns the factor of strength \<open>5\<close>.
\<close>

theorem C8_negative_mu_accepted_counterexample:
  "new_VelocityConstraint3 1 2 3 (1 / 10) (- 5) =
     Inr \<lparr>VC3_noiseModel = Constrained_All 1 5, VC3_keys = [1, 2, 3], VC3_dt = 1 / 10\<rparr>"
  by (simp add: new_VelocityConstraint3_def)

text \<open>
  C8, amended. The constructor rejects no strength: for every \<open>mu\<close>, positive or
  not, it returns a factor, never an error, with the given keys and time step;
  the strength handed to the noise model is exactly \<open>\<bar>mu\<bar>\<close>, which is never
  negative and is zero exactly when \<open>mu = 0\<close>.
\<close>

theorem C8_constructor_never_rejects:
  "new_VelocityConstraint3 key1 key2 velKey dt mu =
     Inr \<lparr>VC3_noiseModel = Constrained_All 1 \<bar>mu\<bar>, VC3_keys = [key1, key2, velKey],
          VC3_dt = dt\<rparr>
   \<and> new_VelocityConstraint3 key1 key2 velKey dt mu \<noteq> Inl e
   \<and> (\<exists>f s. new_VelocityConstraint3 key1 key2 velKey dt mu = Inr f
          \<and> VC3_keys f = [key1, key2, velKey] \<and> VC3_dt f = dt
          \<and> VC3_noiseModel f = Constrained_All 1 s
          \<and> s = \<bar>mu\<bar> \<and> 0 \<le> s \<and> (s = 0) = (mu = 0))"
  by (simp add: new_VelocityConstraint3_def)

section \<open>Properties of the matrices\<close>

lemma cofactor_3x3_simps:
  "cofactor_3x3 (Matrix3 m00 m01 m02 m10 m11 m12 m20 m21 m22) 0 0 = m11 * m22 - m12 * m21"
  "cofactor_3x3 (Matrix3 m00 m01 m02 m10 m11 m12 m20 m21 m22) (Suc 0) 0 = m21 * m02 - m22 * m01"
  "cofactor_3x3 (Matrix3 m00 m01 m02 m10 m11 m12 m20 m21 m22) 2 0 = m01 * m12 - m02 * m11"
  "cofactor_3x3 (Matrix3 m00 m01 m02 m10 m11 m12 m20 m21 m22) 0 (Suc 0) = m12 * m20 - m10 * m22"
  "cofactor_3x3 (Matrix3 m00 m01 m02 m10 m11 m12 m20 m21 m22) (Suc 0) (Suc 0) = m22 * m00 - m20 * m02"
  "cofactor_3x3 (Matrix3 m00 m01 m02 m10 m11 m12 m20 m21 m22) 2 (Suc 0) = m02 * m10 - m00 * m12"
  "cofactor_3x3 (Matrix3 m00 m01 m02 m10 m11 m12 m20 m21 m22) 0 2 = m10 * m21 - m11 * m20"
  "cofactor_3x3 (Matrix3 m00 m01 m02 m10 m11 m12 m20 m21 m22) (Suc 0) 2 = m20 * m01 - m21 * m00"
  "cofactor_3x3 (Matrix3 m00 m01 m02 m10 m11 m12 m20 m21 m22) 2 2 = m00 * m11 - m01 * m10"
  by (simp_all add: cofactor_3x3_def Matrix3_coeff_def Let_def)

lemma Matrix3_determinant_simp:
  "Matrix3_determinant (Matrix3 m00 m01 m02 m10 m11 m12 m20 m21 m22) =
     (m11 * m22 - m12 * m21) * m00 + (m21 * m02 - m22 * m01) * m10 + (m01 * m12 - m02 * m11) * m20"
  by (simp add: Matrix3_determinant_def cofactor_3x3_simps Matrix3_coeff_def)

text \<open>What \<open>inverse()\<close> returns is a right inverse.\<close>

lemma Matrix3_inverse_right:
  assumes "Matrix3_inverse m = Some mi"
  shows "Matrix3_times m mi = Matrix3_Identity"
proof (cases m)
  case (Matrix3 m00 m01 m02 m10 m11 m12 m20 m21 m22)
  define det where
    "det = (m11 * m22 - m12 * m21) * m00 + (m21 * m02 - m22 * m01) * m10
           + (m01 * m12 - m02 * m11) * m20"
  have d: "Matrix3_determinant (Matrix3 m00 m01 m02 m10 m11 m12 m20 m21 m22) = det"
    by (simp add: Matrix3_determinant_simp det_def)
  from assms have nz: "det \<noteq> 0"
    by (auto simp add: Matrix3_inverse_def Matrix3 d Let_def split: if_splits)
  from assms nz have mi: "mi = Matrix3
          ((m11 * m22 - m12 * m21) / det) ((m21 * m02 - m22 * m01) / det) ((m01 * m12 - m02 * m11) / det)
          ((m12 * m20 - m10 * m22) / det) ((m22 * m00 - m20 * m02) / det) ((m02 * m10 - m00 * m12) / det)
          ((m10 * m21 - m11 * m20) / det) ((m20 * m01 - m21 * m00) / det) ((m00 * m11 - m01 * m10) / det)"
    by (auto simp add: Matrix3_inverse_def d Let_def Matrix3 cofactor_3x3_simps)
  have e: "\<And>x. x / det = 1 \<longleftrightarrow> x = det" "\<And>x. x / det = 0 \<longleftrightarrow> x = 0"
    using nz by auto
  show ?thesis
    unfolding mi Matrix3 Matrix3_times_def Matrix3_Identity_def
    using nz
    by (simp add: add_divide_distrib [symmetric] diff_divide_distrib [symmetric] e)
      (simp add: det_def algebra_simps)
qed

lemma Matrix3_times_asDiagonal_dense:
  "Matrix3_times_asDiagonal a d = Matrix3_times a (diag3 d)"
  by (cases a; cases d) (simp add: Matrix3_times_asDiagonal_def Matrix3_times_def diag3_def)

lemma Matrix3_inverse_calibration:
  assumes "f \<noteq> 0"
  shows "Matrix3_inverse (Matrix3 f 0 cx 0 f cy 0 0 1) =
           Some (Matrix3 (1 / f) 0 (- cx / f) 0 (1 / f) (- cy / f) 0 0 1)"
proof -
  have det: "Matrix3_determinant (Matrix3 f 0 cx 0 f cy 0 0 1) = f * f"
    by (simp add: Matrix3_determinant_def cofactor_3x3_def Matrix3_coeff_def Let_def)
  show ?thesis
    using assms
    by (simp add: Matrix3_inverse_def det Let_def cofactor_3x3_def Matrix3_coeff_def)
qed

lemma calibration_inverse_right:
  "f \<noteq> 0 \<Longrightarrow>
   Matrix3_times (Matrix3 f 0 cx 0 f cy 0 0 1)
     (Matrix3 (1 / f) 0 (- cx / f) 0 (1 / f) (- cy / f) 0 0 1) = Matrix3_Identity"
  by (simp add: Matrix3_times_def Matrix3_Identity_def)

lemma calibration_inverse_left:
  "f \<noteq> 0 \<Longrightarrow>
   Matrix3_times (Matrix3 (1 / f) 0 (- cx / f) 0 (1 / f) (- cy / f) 0 0 1)
     (Matrix3 f 0 cx 0 f cy 0 0 1) = Matrix3_Identity"
  by (simp add: Matrix3_times_def Matrix3_Identity_def)

lemma FM_matrix_dense:
  assumes "Rot3_transpose R (FM_V F) = Matrix3_transposed (Rot3_matrix R (FM_V F))"
  shows "FM_matrix R F =
     Matrix3_times (Matrix3_times (Rot3_matrix R (FM_U F)) (diag3 (1, FM_s F, 1)))
       (Matrix3_transposed (Rot3_matrix R (FM_V F)))"
  by (simp add: FM_matrix_def Matrix3_matrix_def assms Matrix3_times_asDiagonal_dense)

lemma SFM_matrix_inverse:
  assumes "SFM_fb P \<noteq> 0"
  shows "\<exists>Kb_inverse.
     Matrix3_times (SFM_Kb P) Kb_inverse = Matrix3_Identity \<and>
     Matrix3_times Kb_inverse (SFM_Kb P) = Matrix3_Identity \<and>
     SFM_matrix E P =
       Some (Matrix3_times (Matrix3_times (SFM_Ka P) (EssentialMatrix_matrix E (SFM_E P)))
               Kb_inverse)"
proof -
  let ?f = "SFM_fb P" and ?cx = "Point2_x (SFM_cb P)" and ?cy = "Point2_y (SFM_cb P)"
  let ?Ki = "Matrix3 (1 / ?f) 0 (- ?cx / ?f) 0 (1 / ?f) (- ?cy / ?f) 0 0 1"
  have "Matrix3_times (SFM_Kb P) ?Ki = Matrix3_Identity"
    unfolding SFM_Kb_def by (rule calibration_inverse_right [OF assms])
  moreover have "Matrix3_times ?Ki (SFM_Kb P) = Matrix3_Identity"
    unfolding SFM_Kb_def by (rule calibration_inverse_left [OF assms])
  moreover have "Matrix3_inverse (SFM_Kb P) = Some ?Ki"
    unfolding SFM_Kb_def by (rule Matrix3_inverse_calibration [OF assms])
  then have "SFM_matrix E P =
       Some (Matrix3_times (Matrix3_times (SFM_Ka P) (EssentialMatrix_matrix E (SFM_E P))) ?Ki)"
    by (simp add: SFM_matrix_def Let_def)
  ultimately show ?thesis by blast
qed

text \<open>
  C2. The matrix of a \<open>FundamentalMatrix\<close> is the dense product
  \<open>U * diag(1, s, 1) * V\<^sup>T\<close>, given that \<open>transpose()\<close> of the right rotation returns
  the transposed matrix of that rotation. The matrix of a \<open>SimpleFundamentalMatrix\<close>
  with a right focal length other than zero is \<open>Ka * E * Kb\<^sup>-\<^sup>1\<close>, with \<open>Kb\<^sup>-\<^sup>1\<close> the
  two-sided inverse of \<open>Kb\<close>, and \<open>Ka\<close>, \<open>Kb\<close> the calibration matrices of the focal
  length and principal point of each side. Both are functions of the state alone.
\<close>

theorem C2_matrix_is_the_documented_product:
  "(Rot3_transpose R (FM_V F) = Matrix3_transposed (Rot3_matrix R (FM_V F)) \<longrightarrow>
      FM_matrix R F =
        Matrix3_times (Matrix3_times (Rot3_matrix R (FM_U F)) (diag3 (1, FM_s F, 1)))
          (Matrix3_transposed (Rot3_matrix R (FM_V F))))
   \<and> (SFM_fb P \<noteq> 0 \<longrightarrow>
      (\<exists>Kb_inverse.
         Matrix3_times (SFM_Kb P) Kb_inverse = Matrix3_Identity \<and>
         Matrix3_times Kb_inverse (SFM_Kb P) = Matrix3_Identity \<and>
         SFM_matrix E P =
           Some (Matrix3_times (Matrix3_times (SFM_Ka P) (EssentialMatrix_matrix E (SFM_E P)))
                   Kb_inverse)))
   \<and> SFM_Ka P = Matrix3 (SFM_fa P) 0 (fst (SFM_ca P)) 0 (SFM_fa P) (snd (SFM_ca P)) 0 0 1
   \<and> SFM_Kb P = Matrix3 (SFM_fb P) 0 (fst (SFM_cb P)) 0 (SFM_fb P) (snd (SFM_cb P)) 0 0 1"
  using FM_matrix_dense [of R F] SFM_matrix_inverse [of P E]
  by (simp add: SFM_Ka_def SFM_Kb_def Point2_x_def Point2_y_def)

text \<open>
  C2, at the concrete inputs: both hypotheses hold there, and the two matrices are
  the products the theorem gives, evaluated.
\<close>

theorem C2_matrix_witness:
  "Rot3_transpose first_order_Rot3 (FM_V FM_example) =
     Matrix3_transposed (Rot3_matrix first_order_Rot3 (FM_V FM_example))
   \<and> FM_matrix first_order_Rot3 FM_example =
       Matrix3_times
         (Matrix3_times (Rot3_matrix first_order_Rot3 (FM_U FM_example))
            (diag3 (1, FM_s FM_example, 1)))
         (Matrix3_transposed (Rot3_matrix first_order_Rot3 (FM_V FM_example)))
   \<and> FM_matrix first_order_Rot3 FM_example = Matrix3 0 (- 2) 0 1 0 0 0 0 1
   \<and> SFM_fb SFM_example \<noteq> 0
   \<and> (\<exists>Kb_inverse.
         Matrix3_times (SFM_Kb SFM_example) Kb_inverse = Matrix3_Identity \<and>
         Matrix3_times Kb_inverse (SFM_Kb SFM_example) = Matrix3_Identity \<and>
         SFM_matrix first_order_EssentialMatrix SFM_example =
           Some (Matrix3_times
                   (Matrix3_times (SFM_Ka SFM_example)
                      (EssentialMatrix_matrix first_order_EssentialMatrix (SFM_E SFM_example)))
                   Kb_inverse))
   \<and> SFM_matrix first_order_EssentialMatrix SFM_example =
       Some (Matrix3 (- (5 / 4)) 0 375 0 (- (5 / 4)) 250 0 0 0)"
proof -
  have h1: "Rot3_transpose first_order_Rot3 (FM_V FM_example) =
     Matrix3_transposed (Rot3_matrix first_order_Rot3 (FM_V FM_example))"
    by (simp add: first_order_Rot3_def)
  have h2: "SFM_fb SFM_example \<noteq> 0"
    by (simp add: SFM_example_def)
  note inst = C2_matrix_is_the_documented_product
      [where R = first_order_Rot3 and F = FM_example and P = SFM_example
         and E = first_order_EssentialMatrix]
  from inst h1 have dense: "FM_matrix first_order_Rot3 FM_example =
       Matrix3_times
         (Matrix3_times (Rot3_matrix first_order_Rot3 (FM_U FM_example))
            (diag3 (1, FM_s FM_example, 1)))
         (Matrix3_transposed (Rot3_matrix first_order_Rot3 (FM_V FM_example)))"
    by blast
  have "FM_matrix first_order_Rot3 FM_example = Matrix3 0 (- 2) 0 1 0 0 0 0 1"
    unfolding dense
    by (simp add: first_order_Rot3_def FM_example_def quarter_turn_def Matrix3_Identity_def
        diag3_def Matrix3_times_def Matrix3_transposed_def)
  moreover have "SFM_matrix first_order_EssentialMatrix SFM_example =
       Some (Matrix3 (- (5 / 4)) 0 375 0 (- (5 / 4)) 250 0 0 0)"
    by (simp add: SFM_matrix_def SFM_example_def SFM_Ka_def SFM_Kb_def Point2_x_def Point2_y_def
        Let_def Matrix3_inverse_calibration first_order_EssentialMatrix_def skewSymmetric_def
        quarter_turn_def Matrix3_times_def)
  ultimately show ?thesis using inst h1 h2 dense by blast
qed

section \<open>Properties of the charts\<close>

lemma length_7_cases:
  "length (d::'a list) = 7 \<Longrightarrow> \<exists>d0 d1 d2 d3 d4 d5 d6. d = [d0, d1, d2, d3, d4, d5, d6]"
  by (auto simp: length_Suc_conv numeral_eq_Suc)

lemma FM_localCoordinates_eq:
  "Rot3_localCoordinates R (FM_U F) (FM_U G) = (a, b, c) \<Longrightarrow>
   Rot3_localCoordinates R (FM_V F) (FM_V G) = (x, y, z) \<Longrightarrow>
   FM_localCoordinates R F G = [a, b, c, FM_s G - FM_s F, x, y, z]"
  by (simp add: FM_localCoordinates_def set_head3_def set_tail3_def Let_def numeral_eq_Suc)

lemma SFM_localCoordinates_eq:
  "EssentialMatrix_localCoordinates E (SFM_E P) (SFM_E Q) = (a, b, c, x, y) \<Longrightarrow>
   SFM_localCoordinates E P Q = [a, b, c, x, y, SFM_fa Q - SFM_fa P, SFM_fb Q - SFM_fb P]"
  by (simp add: SFM_localCoordinates_def set_head5_def Let_def numeral_eq_Suc)

lemma FM_retract_7:
  "FM_retract R F [d0, d1, d2, d3, d4, d5, d6] =
     Inr \<lparr>FM_U = Rot3_retract R (FM_U F) (d0, d1, d2), FM_s = FM_s F + d3,
          FM_V = Rot3_retract R (FM_V F) (d4, d5, d6)\<rparr>"
  by (simp add: FM_retract_def head3_def tail3_def coeff_def new_FundamentalMatrix_def Let_def)

lemma SFM_retract_7:
  "SFM_retract E P [d0, d1, d2, d3, d4, d5, d6] =
     Inr \<lparr>SFM_E = EssentialMatrix_retract E (SFM_E P) (d0, d1, d2, d3, d4),
          SFM_fa = SFM_fa P + d5, SFM_fb = SFM_fb P + d6,
          SFM_ca = SFM_ca P, SFM_cb = SFM_cb P\<rparr>"
  by (simp add: SFM_retract_def head5_def coeff_def new_SimpleFundamentalMatrix_def Let_def)

lemma FM_round_trip:
  assumes "length d = 7"
    and "Vector3_near tol
           (Rot3_localCoordinates R (FM_U F) (Rot3_retract R (FM_U F) (d ! 0, d ! 1, d ! 2)))
           (d ! 0, d ! 1, d ! 2)"
    and "Vector3_near tol
           (Rot3_localCoordinates R (FM_V F) (Rot3_retract R (FM_V F) (d ! 4, d ! 5, d ! 6)))
           (d ! 4, d ! 5, d ! 6)"
  shows "\<exists>G. FM_retract R F d = Inr G \<and> Vector_near tol (FM_localCoordinates R F G) d"
proof -
  from assms(1) obtain d0 d1 d2 d3 d4 d5 d6 where d: "d = [d0, d1, d2, d3, d4, d5, d6]"
    using length_7_cases by blast
  let ?G = "\<lparr>FM_U = Rot3_retract R (FM_U F) (d0, d1, d2), FM_s = FM_s F + d3,
          FM_V = Rot3_retract R (FM_V F) (d4, d5, d6)\<rparr>"
  obtain a b c where u: "Rot3_localCoordinates R (FM_U F) (FM_U ?G) = (a, b, c)"
    by (metis prod_cases3)
  obtain x y z where v: "Rot3_localCoordinates R (FM_V F) (FM_V ?G) = (x, y, z)"
    by (metis prod_cases3)
  have lc: "FM_localCoordinates R F ?G = [a, b, c, FM_s ?G - FM_s F, x, y, z]"
    by (rule FM_localCoordinates_eq [OF u v])
  from assms(2) u have 1: "\<bar>a - d0\<bar> \<le> tol" "\<bar>b - d1\<bar> \<le> tol" "\<bar>c - d2\<bar> \<le> tol"
    by (simp_all add: d Vector3_near_def)
  from assms(3) v have 2: "\<bar>x - d4\<bar> \<le> tol" "\<bar>y - d5\<bar> \<le> tol" "\<bar>z - d6\<bar> \<le> tol"
    by (simp_all add: d Vector3_near_def)
  from 1 have tol: "0 \<le> tol" by linarith
  have "Vector_near tol (FM_localCoordinates R F ?G) d"
    unfolding lc using 1 2 tol by (simp add: d Vector_near_def)
  then show ?thesis
    by (simp add: d FM_retract_7)
qed

lemma FM_self_coordinates:
  assumes "Vector3_near tol (Rot3_localCoordinates R (FM_U G) (FM_U G)) (0, 0, 0)"
    and "Vector3_near tol (Rot3_localCoordinates R (FM_V G) (FM_V G)) (0, 0, 0)"
  shows "Vector_near tol (FM_localCoordinates R G G) (replicate 7 0)"
proof -
  obtain a b c where u: "Rot3_localCoordinates R (FM_U G) (FM_U G) = (a, b, c)"
    by (metis prod_cases3)
  obtain x y z where v: "Rot3_localCoordinates R (FM_V G) (FM_V G) = (x, y, z)"
    by (metis prod_cases3)
  from assms(1) u have 1: "\<bar>a\<bar> \<le> tol" "\<bar>b\<bar> \<le> tol" "\<bar>c\<bar> \<le> tol"
    by (simp_all add: Vector3_near_def)
  from assms(2) v have 2: "\<bar>x\<bar> \<le> tol" "\<bar>y\<bar> \<le> tol" "\<bar>z\<bar> \<le> tol"
    by (simp_all add: Vector3_near_def)
  from 1 have tol: "0 \<le> tol" by linarith
  show ?thesis
    unfolding FM_localCoordinates_eq [OF u v] using 1 2 tol
    by (simp add: Vector_near_def numeral_eq_Suc)
qed

lemma SFM_round_trip:
  assumes "length d = 7"
    and "Vector5_near tol
           (EssentialMatrix_localCoordinates E (SFM_E P)
              (EssentialMatrix_retract E (SFM_E P) (d ! 0, d ! 1, d ! 2, d ! 3, d ! 4)))
           (d ! 0, d ! 1, d ! 2, d ! 3, d ! 4)"
  shows "\<exists>Q. SFM_retract E P d = Inr Q \<and> Vector_near tol (SFM_localCoordinates E P Q) d"
proof -
  from assms(1) obtain d0 d1 d2 d3 d4 d5 d6 where d: "d = [d0, d1, d2, d3, d4, d5, d6]"
    using length_7_cases by blast
  let ?Q = "\<lparr>SFM_E = EssentialMatrix_retract E (SFM_E P) (d0, d1, d2, d3, d4),
          SFM_fa = SFM_fa P + d5, SFM_fb = SFM_fb P + d6,
          SFM_ca = SFM_ca P, SFM_cb = SFM_cb P\<rparr>"
  obtain a b c x y where
    e: "EssentialMatrix_localCoordinates E (SFM_E P) (SFM_E ?Q) = (a, b, c, x, y)"
    by (metis prod_cases5)
  from assms(2) e have 1: "\<bar>a - d0\<bar> \<le> tol" "\<bar>b - d1\<bar> \<le> tol" "\<bar>c - d2\<bar> \<le> tol"
    "\<bar>x - d3\<bar> \<le> tol" "\<bar>y - d4\<bar> \<le> tol"
    by (simp_all add: d Vector5_near_def)
  from 1 have tol: "0 \<le> tol" by linarith
  have "Vector_near tol (SFM_localCoordinates E P ?Q) d"
    unfolding SFM_localCoordinates_eq [OF e] using 1 tol by (simp add: d Vector_near_def)
  then show ?thesis
    by (simp add: d SFM_retract_7)
qed

lemma SFM_self_coordinates:
  assumes "Vector5_near tol (EssentialMatrix_localCoordinates E (SFM_E Q) (SFM_E Q)) (0, 0, 0, 0, 0)"
  shows "Vector_near tol (SFM_localCoordinates E Q Q) (replicate 7 0)"
proof -
  obtain a b c x y where
    e: "EssentialMatrix_localCoordinates E (SFM_E Q) (SFM_E Q) = (a, b, c, x, y)"
    by (metis prod_cases5)
  from assms e have 1: "\<bar>a\<bar> \<le> tol" "\<bar>b\<bar> \<le> tol" "\<bar>c\<bar> \<le> tol" "\<bar>x\<bar> \<le> tol" "\<bar>y\<bar> \<le> tol"
    by (simp_all add: Vector5_near_def)
  from 1 have tol: "0 \<le> tol" by linarith
  show ?thesis
    unfolding SFM_localCoordinates_eq [OF e] using 1 tol
    by (simp add: Vector_near_def numeral_eq_Suc)
qed

lemma Vector_near_0: "Vector_near 0 v w = (v = w)"
  by (simp add: Vector_near_def list_all2_eq [symmetric])

text \<open>
  C1. For a tangent vector \<open>d\<close> of length 7, \<open>retract\<close> returns a parameter whose
  local coordinates with respect to the starting point agree with \<open>d\<close> within \<open>tol\<close>,
  given that the charts of the leaf manifolds do so on the slices of \<open>d\<close> they
  receive; and the local coordinates of a parameter with respect to itself are
  zero within \<open>tol\<close>, given that those of its leaves are. This holds for both
  variants: \<open>localCoordinates\<close> writes the leaf coordinates and the scalar
  differences to the places \<open>retract\<close> reads them from. With \<open>tol = 0\<close> the
  agreement is equality.
\<close>

theorem C1_retract_localCoordinates_round_trip:
  "(length d = 7 \<and>
    Vector3_near tol
      (Rot3_localCoordinates R (FM_U F) (Rot3_retract R (FM_U F) (d ! 0, d ! 1, d ! 2)))
      (d ! 0, d ! 1, d ! 2) \<and>
    Vector3_near tol
      (Rot3_localCoordinates R (FM_V F) (Rot3_retract R (FM_V F) (d ! 4, d ! 5, d ! 6)))
      (d ! 4, d ! 5, d ! 6) \<longrightarrow>
    (\<exists>G. FM_retract R F d = Inr G \<and> Vector_near tol (FM_localCoordinates R F G) d))
   \<and> (Vector3_near tol (Rot3_localCoordinates R (FM_U G) (FM_U G)) (0, 0, 0) \<and>
      Vector3_near tol (Rot3_localCoordinates R (FM_V G) (FM_V G)) (0, 0, 0) \<longrightarrow>
      Vector_near tol (FM_localCoordinates R G G) (replicate 7 0))
   \<and> (length d = 7 \<and>
      Vector5_near tol
        (EssentialMatrix_localCoordinates E (SFM_E P)
           (EssentialMatrix_retract E (SFM_E P) (d ! 0, d ! 1, d ! 2, d ! 3, d ! 4)))
        (d ! 0, d ! 1, d ! 2, d ! 3, d ! 4) \<longrightarrow>
      (\<exists>Q. SFM_retract E P d = Inr Q \<and> Vector_near tol (SFM_localCoordinates E P Q) d))
   \<and> (Vector5_near tol (EssentialMatrix_localCoordinates E (SFM_E Q) (SFM_E Q)) (0, 0, 0, 0, 0) \<longrightarrow>
      Vector_near tol (SFM_localCoordinates E Q Q) (replicate 7 0))"
  using FM_round_trip [of d tol R F] FM_self_coordinates [of tol R G]
    SFM_round_trip [of d tol E P] SFM_self_coordinates [of tol E Q]
  by blast


lemma first_order_round_trip_U:
  "Rot3_localCoordinates first_order_Rot3 (FM_U FM_example)
     (Rot3_retract first_order_Rot3 (FM_U FM_example) (a, b, c)) = (a, b, c)"
  by (simp add: first_order_Rot3_def FM_example_def quarter_turn_def Matrix3_Identity_def
      skewSymmetric_def skew_part_def Matrix3_plus_def Matrix3_times_def Matrix3_transposed_def)

lemma first_order_round_trip_V:
  "Rot3_localCoordinates first_order_Rot3 (FM_V FM_example)
     (Rot3_retract first_order_Rot3 (FM_V FM_example) (a, b, c)) = (a, b, c)"
  by (simp add: first_order_Rot3_def FM_example_def quarter_turn_def Matrix3_Identity_def
      skewSymmetric_def skew_part_def Matrix3_plus_def Matrix3_times_def Matrix3_transposed_def)

lemma first_order_round_trip_E:
  "EssentialMatrix_localCoordinates first_order_EssentialMatrix (SFM_E SFM_example)
     (EssentialMatrix_retract first_order_EssentialMatrix (SFM_E SFM_example) (a, b, c, x, y)) =
   (a, b, c, x, y)"
  by (simp add: first_order_EssentialMatrix_def first_order_Rot3_def SFM_example_def
      quarter_turn_def Matrix3_Identity_def
      skewSymmetric_def skew_part_def Matrix3_plus_def Matrix3_times_def Matrix3_transposed_def)

lemma first_order_self_U:
  "Rot3_localCoordinates first_order_Rot3 (FM_U FM_example) (FM_U FM_example) = (0, 0, 0)"
  "Rot3_localCoordinates first_order_Rot3 (FM_V FM_example) (FM_V FM_example) = (0, 0, 0)"
  by (simp_all add: first_order_Rot3_def FM_example_def quarter_turn_def Matrix3_Identity_def
      skew_part_def Matrix3_times_def Matrix3_transposed_def)

lemma first_order_self_E:
  "EssentialMatrix_localCoordinates first_order_EssentialMatrix (SFM_E SFM_example)
     (SFM_E SFM_example) = (0, 0, 0, 0, 0)"
  by (simp add: first_order_EssentialMatrix_def first_order_Rot3_def SFM_example_def
      quarter_turn_def skew_part_def Matrix3_times_def Matrix3_transposed_def)

lemma Vector3_near_refl: "0 \<le> tol \<Longrightarrow> Vector3_near tol v v"
  by (cases v) (simp add: Vector3_near_def)

lemma Vector5_near_refl: "0 \<le> tol \<Longrightarrow> Vector5_near tol v v"
  by (cases v) (simp add: Vector5_near_def)

text \<open>
  C1, at the concrete inputs with \<open>tol = 1e-9\<close>: the first-order charts round-trip
  at both rotations and at the essential matrix, so every hypothesis holds and
  both variants return to the tangent vector.
\<close>

theorem C1_round_trip_witness:
  "length delta_example = 7
   \<and> Vector3_near (1 / 10 ^ 9)
       (Rot3_localCoordinates first_order_Rot3 (FM_U FM_example)
          (Rot3_retract first_order_Rot3 (FM_U FM_example)
             (delta_example ! 0, delta_example ! 1, delta_example ! 2)))
       (delta_example ! 0, delta_example ! 1, delta_example ! 2)
   \<and> Vector3_near (1 / 10 ^ 9)
       (Rot3_localCoordinates first_order_Rot3 (FM_V FM_example)
          (Rot3_retract first_order_Rot3 (FM_V FM_example)
             (delta_example ! 4, delta_example ! 5, delta_example ! 6)))
       (delta_example ! 4, delta_example ! 5, delta_example ! 6)
   \<and> (\<exists>G. FM_retract first_order_Rot3 FM_example delta_example = Inr G
          \<and> Vector_near (1 / 10 ^ 9) (FM_localCoordinates first_order_Rot3 FM_example G)
               delta_example)
   \<and> Vector_near (1 / 10 ^ 9) (FM_localCoordinates first_order_Rot3 FM_example FM_example)
       (replicate 7 0)
   \<and> (\<exists>Q. SFM_retract first_order_EssentialMatrix SFM_example delta_example = Inr Q
          \<and> Vector_near (1 / 10 ^ 9)
               (SFM_localCoordinates first_order_EssentialMatrix SFM_example Q) delta_example)
   \<and> Vector_near (1 / 10 ^ 9)
       (SFM_localCoordinates first_order_EssentialMatrix SFM_example SFM_example)
       (replicate 7 0)"
proof -
  have tol: "(0::real) \<le> 1 / 10 ^ 9" by simp
  have h0: "length delta_example = 7"
    by (simp add: delta_example_def)
  have h1: "Vector3_near (1 / 10 ^ 9)
       (Rot3_localCoordinates first_order_Rot3 (FM_U FM_example)
          (Rot3_retract first_order_Rot3 (FM_U FM_example)
             (delta_example ! 0, delta_example ! 1, delta_example ! 2)))
       (delta_example ! 0, delta_example ! 1, delta_example ! 2)"
    unfolding first_order_round_trip_U by (rule Vector3_near_refl [OF tol])
  have h2: "Vector3_near (1 / 10 ^ 9)
       (Rot3_localCoordinates first_order_Rot3 (FM_V FM_example)
          (Rot3_retract first_order_Rot3 (FM_V FM_example)
             (delta_example ! 4, delta_example ! 5, delta_example ! 6)))
       (delta_example ! 4, delta_example ! 5, delta_example ! 6)"
    unfolding first_order_round_trip_V by (rule Vector3_near_refl [OF tol])
  have h3: "Vector3_near (1 / 10 ^ 9)
       (Rot3_localCoordinates first_order_Rot3 (FM_U FM_example) (FM_U FM_example)) (0, 0, 0)"
    "Vector3_near (1 / 10 ^ 9)
       (Rot3_localCoordinates first_order_Rot3 (FM_V FM_example) (FM_V FM_example)) (0, 0, 0)"
    unfolding first_order_self_U by (rule Vector3_near_refl [OF tol])+
  have h4: "Vector5_near (1 / 10 ^ 9)
        (EssentialMatrix_localCoordinates first_order_EssentialMatrix (SFM_E SFM_example)
           (EssentialMatrix_retract first_order_EssentialMatrix (SFM_E SFM_example)
              (delta_example ! 0, delta_example ! 1, delta_example ! 2, delta_example ! 3,
               delta_example ! 4)))
        (delta_example ! 0, delta_example ! 1, delta_example ! 2, delta_example ! 3,
         delta_example ! 4)"
    unfolding first_order_round_trip_E by (rule Vector5_near_refl [OF tol])
  have h5: "Vector5_near (1 / 10 ^ 9)
       (EssentialMatrix_localCoordinates first_order_EssentialMatrix (SFM_E SFM_example)
          (SFM_E SFM_example)) (0, 0, 0, 0, 0)"
    unfolding first_order_self_E by (rule Vector5_near_refl [OF tol])
  show ?thesis
    using C1_retract_localCoordinates_round_trip
      [where d = delta_example and tol = "1 / 10 ^ 9" and R = first_order_Rot3
         and F = FM_example and G = FM_example and E = first_order_EssentialMatrix
         and P = SFM_example and Q = SFM_example]
      h0 h1 h2 h3 h4 h5
    by blast
qed

section \<open>The dimension\<close>

text \<open>
  C4. For both variants the static \<open>Dim()\<close> and the member \<open>dim()\<close> return 7, the
  value of the enumeration constant \<open>dimension\<close>, whatever the parameter.
\<close>

theorem C4_dimension_is_seven:
  "FM_Dim = 7 \<and> FM_dim F = 7 \<and> FM_dim F = FM_Dim
   \<and> SFM_Dim = 7 \<and> SFM_dim P = 7 \<and> SFM_dim P = SFM_Dim"
  by (simp add: FM_Dim_def FM_dim_def FM_dimension_def SFM_Dim_def SFM_dim_def SFM_dimension_def)

section \<open>retract and the length of the tangent vector\<close>

lemma FM_retract_accepts:
  assumes "4 \<le> length d"
  shows "FM_retract R F d =
     Inr \<lparr>FM_U = Rot3_retract R (FM_U F) (d ! 0, d ! 1, d ! 2), FM_s = FM_s F + d ! 3,
          FM_V = Rot3_retract R (FM_V F)
            (d ! (length d - 3), d ! (length d - 2), d ! (length d - 1))\<rparr>"
  using assms
  by (simp add: FM_retract_def head3_def tail3_def coeff_def new_FundamentalMatrix_def Let_def)

lemma FM_retract_rejects:
  assumes "length d < 4"
  shows "FM_retract R F d = Inl EigenAssertion"
  using assms
  by (simp add: FM_retract_def head3_def tail3_def coeff_def Let_def)

lemma SFM_retract_accepts:
  assumes "7 \<le> length d"
  shows "SFM_retract E P d =
     Inr \<lparr>SFM_E = EssentialMatrix_retract E (SFM_E P) (d ! 0, d ! 1, d ! 2, d ! 3, d ! 4),
          SFM_fa = SFM_fa P + d ! 5, SFM_fb = SFM_fb P + d ! 6,
          SFM_ca = SFM_ca P, SFM_cb = SFM_cb P\<rparr>"
  using assms
  by (simp add: SFM_retract_def head5_def coeff_def new_SimpleFundamentalMatrix_def Let_def)

lemma SFM_retract_rejects:
  assumes "length d < 7"
  shows "SFM_retract E P d = Inl EigenAssertion"
  using assms
  by (simp add: SFM_retract_def head5_def coeff_def Let_def)

text \<open>
  C5, as stated, fails: a tangent vector of length 8 is not rejected by either
  variant. \<open>FundamentalMatrix::retract\<close> uses its first three coefficients, the
  fourth and the last three, and drops the fifth; \<open>SimpleFundamentalMatrix::retract\<close>
  uses the first seven and drops the eighth.
\<close>

theorem C5_long_vector_accepted_counterexample:
  "FM_retract first_order_Rot3 FM_example [0, 0, 0, 1, 5, 0, 0, 0] =
     Inr \<lparr>FM_U = quarter_turn, FM_s = 3, FM_V = Matrix3_Identity\<rparr>
   \<and> SFM_retract first_order_EssentialMatrix SFM_example [0, 0, 0, 0, 0, 1, 2, 9] =
     Inr \<lparr>SFM_E = (quarter_turn, 0, 0, 1), SFM_fa = 501, SFM_fb = 402,
          SFM_ca = (320, 240), SFM_cb = (300, 200)\<rparr>"
  by (simp add: FM_retract_accepts SFM_retract_accepts FM_example_def SFM_example_def
      first_order_Rot3_def first_order_EssentialMatrix_def quarter_turn_def Matrix3_Identity_def
      skewSymmetric_def Matrix3_plus_def Matrix3_times_def)

text \<open>
  C5, amended. \<open>retract\<close> checks no length; it reads fixed places of the tangent
  vector. \<open>FundamentalMatrix::retract\<close> returns a parameter for every vector of
  length at least 4, built from the first three coefficients, the fourth and the
  last three; \<open>SimpleFundamentalMatrix::retract\<close> returns one for every vector of
  length at least 7, built from the first seven. A shorter vector fails the
  bounds assertion of the vector library on the block or coefficient that does
  not fit. No vector is reported as an invalid argument.
\<close>

theorem C5_retract_reads_fixed_places:
  "(4 \<le> length d \<longrightarrow>
      FM_retract R F d =
        Inr \<lparr>FM_U = Rot3_retract R (FM_U F) (d ! 0, d ! 1, d ! 2), FM_s = FM_s F + d ! 3,
             FM_V = Rot3_retract R (FM_V F)
               (d ! (length d - 3), d ! (length d - 2), d ! (length d - 1))\<rparr>)
   \<and> (length d < 4 \<longrightarrow> FM_retract R F d = Inl EigenAssertion)
   \<and> (7 \<le> length d \<longrightarrow>
      SFM_retract E P d =
        Inr \<lparr>SFM_E = EssentialMatrix_retract E (SFM_E P) (d ! 0, d ! 1, d ! 2, d ! 3, d ! 4),
             SFM_fa = SFM_fa P + d ! 5, SFM_fb = SFM_fb P + d ! 6,
             SFM_ca = SFM_ca P, SFM_cb = SFM_cb P\<rparr>)
   \<and> (length d < 7 \<longrightarrow> SFM_retract E P d = Inl EigenAssertion)
   \<and> FM_retract R F d \<noteq> Inl InvalidArgument
   \<and> SFM_retract E P d \<noteq> Inl InvalidArgument"
proof -
  have "FM_retract R F d \<noteq> Inl InvalidArgument"
    using FM_retract_accepts [of d R F] FM_retract_rejects [of d R F]
    by (cases "4 \<le> length d") simp_all
  moreover have "SFM_retract E P d \<noteq> Inl InvalidArgument"
    using SFM_retract_accepts [of d E P] SFM_retract_rejects [of d E P]
    by (cases "7 \<le> length d") simp_all
  ultimately show ?thesis
    using FM_retract_accepts [of d R F] FM_retract_rejects [of d R F]
      SFM_retract_accepts [of d E P] SFM_retract_rejects [of d E P]
    by blast
qed

text \<open>
  C5, amended, at a vector of length 8, which both variants accept, and at one of
  length 3, which both fail on.
\<close>

theorem C5_retract_witness:
  "4 \<le> length [0, 0, 0, 1, 5, 0, 0, 0 :: real] \<and> 7 \<le> length [0, 0, 0, 1, 5, 0, 0, 0 :: real]
   \<and> FM_retract first_order_Rot3 FM_example [0, 0, 0, 1, 5, 0, 0, 0] =
       Inr \<lparr>FM_U = quarter_turn, FM_s = 3, FM_V = Matrix3_Identity\<rparr>
   \<and> SFM_retract first_order_EssentialMatrix SFM_example [0, 0, 0, 1, 5, 0, 0, 0] =
       Inr \<lparr>SFM_E = (quarter_turn, 1, 5, 1), SFM_fa = 500, SFM_fb = 400,
            SFM_ca = (320, 240), SFM_cb = (300, 200)\<rparr>
   \<and> length [1, 2, 3 :: real] < 4 \<and> length [1, 2, 3 :: real] < 7
   \<and> FM_retract first_order_Rot3 FM_example [1, 2, 3] = Inl EigenAssertion
   \<and> SFM_retract first_order_EssentialMatrix SFM_example [1, 2, 3] = Inl EigenAssertion"
  using C5_retract_reads_fixed_places
      [where d = "[0, 0, 0, 1, 5, 0, 0, 0]" and R = first_order_Rot3 and F = FM_example
         and E = first_order_EssentialMatrix and P = SFM_example]
    C5_retract_reads_fixed_places
      [where d = "[1, 2, 3]" and R = first_order_Rot3 and F = FM_example
         and E = first_order_EssentialMatrix and P = SFM_example]
  by (simp add: FM_example_def SFM_example_def
      first_order_Rot3_def first_order_EssentialMatrix_def quarter_turn_def Matrix3_Identity_def
      skewSymmetric_def Matrix3_plus_def Matrix3_times_def)

section \<open>The principal points\<close>

lemma SFM_retract_frozen:
  assumes "SFM_retract E P d = Inr Q"
  shows "SFM_ca Q = SFM_ca P \<and> SFM_cb Q = SFM_cb P"
proof (cases "7 \<le> length d")
  case True
  from SFM_retract_accepts [OF True, of E P] assms show ?thesis by auto
next
  case False
  then have "length d < 7" by simp
  from SFM_retract_rejects [OF this, of E P] assms show ?thesis by simp
qed

lemma SFM_localCoordinates_ignores_principal_points:
  "SFM_localCoordinates E (P\<lparr>SFM_ca := a, SFM_cb := b\<rparr>) (Q\<lparr>SFM_ca := pa, SFM_cb := pb\<rparr>) =
   SFM_localCoordinates E P Q"
  by (simp add: SFM_localCoordinates_def)

text \<open>
  C6. For a tangent vector of length 7, \<open>SimpleFundamentalMatrix::retract\<close> returns
  a parameter with the principal points of the one it started from; only the
  essential matrix and the two focal lengths are moved. Whenever \<open>retract\<close>
  returns, the principal points are unchanged. \<open>localCoordinates\<close> does not
  depend on the principal points of either parameter.
\<close>

theorem C6_principal_points_frozen:
  "(length d = 7 \<longrightarrow>
      (\<exists>Q. SFM_retract E P d = Inr Q \<and> SFM_ca Q = SFM_ca P \<and> SFM_cb Q = SFM_cb P
           \<and> SFM_E Q = EssentialMatrix_retract E (SFM_E P) (d ! 0, d ! 1, d ! 2, d ! 3, d ! 4)
           \<and> SFM_fa Q = SFM_fa P + d ! 5 \<and> SFM_fb Q = SFM_fb P + d ! 6))
   \<and> (SFM_retract E P d = Inr S \<longrightarrow> SFM_ca S = SFM_ca P \<and> SFM_cb S = SFM_cb P)
   \<and> SFM_localCoordinates E (P\<lparr>SFM_ca := a, SFM_cb := b\<rparr>) (S\<lparr>SFM_ca := pa, SFM_cb := pb\<rparr>) =
       SFM_localCoordinates E P S"
proof -
  have "length d = 7 \<longrightarrow>
      (\<exists>Q. SFM_retract E P d = Inr Q \<and> SFM_ca Q = SFM_ca P \<and> SFM_cb Q = SFM_cb P
           \<and> SFM_E Q = EssentialMatrix_retract E (SFM_E P) (d ! 0, d ! 1, d ! 2, d ! 3, d ! 4)
           \<and> SFM_fa Q = SFM_fa P + d ! 5 \<and> SFM_fb Q = SFM_fb P + d ! 6)"
    using SFM_retract_accepts [of d E P] by simp
  then show ?thesis
    using SFM_retract_frozen [of E P d S] SFM_localCoordinates_ignores_principal_points [where E = E and P = P and Q = S and a = a and b = b and pa = pa and pb = pb]
    by blast
qed

text \<open>
  C6, at the concrete reduced-form parameter and tangent vector: the principal
  points \<open>(320, 240)\<close> and \<open>(300, 200)\<close> are those of the result, while the left
  focal length has moved.
\<close>

theorem C6_principal_points_witness:
  "length delta_example = 7
   \<and> (\<exists>Q. SFM_retract first_order_EssentialMatrix SFM_example delta_example = Inr Q
          \<and> SFM_ca Q = (320, 240) \<and> SFM_cb Q = (300, 200)
          \<and> SFM_fa Q = 500003 / 1000 \<and> SFM_fb Q = 400)
   \<and> SFM_localCoordinates first_order_EssentialMatrix
       (SFM_example\<lparr>SFM_ca := (1, 2), SFM_cb := (3, 4)\<rparr>)
       (SFM_example\<lparr>SFM_ca := (5, 6), SFM_cb := (7, 8)\<rparr>) =
     SFM_localCoordinates first_order_EssentialMatrix SFM_example SFM_example"
proof -
  have h0: "length delta_example = 7"
    by (simp add: delta_example_def)
  note inst = C6_principal_points_frozen
      [where d = delta_example and E = first_order_EssentialMatrix and P = SFM_example
         and S = SFM_example and a = "(1, 2)" and b = "(3, 4)" and pa = "(5, 6)"
         and pb = "(7, 8)"]
  from inst h0 obtain Q where
    Q: "SFM_retract first_order_EssentialMatrix SFM_example delta_example = Inr Q"
      "SFM_ca Q = SFM_ca SFM_example" "SFM_cb Q = SFM_cb SFM_example"
      "SFM_fa Q = SFM_fa SFM_example + delta_example ! 5"
      "SFM_fb Q = SFM_fb SFM_example + delta_example ! 6"
    by blast
  have "SFM_ca Q = (320, 240)" "SFM_cb Q = (300, 200)"
    "SFM_fa Q = 500003 / 1000" "SFM_fb Q = 400"
    using Q by (simp_all add: SFM_example_def delta_example_def)
  with Q(1) h0 inst show ?thesis by blast
qed

section \<open>Retracting by the zero vector\<close>

lemma replicate_7: "replicate 7 x = [x, x, x, x, x, x, x]"
  by (simp add: numeral_eq_Suc)

lemma FM_retract_zero:
  "FM_retract R F (replicate 7 0) =
     Inr \<lparr>FM_U = Rot3_retract R (FM_U F) (0, 0, 0), FM_s = FM_s F,
          FM_V = Rot3_retract R (FM_V F) (0, 0, 0)\<rparr>"
  by (simp add: replicate_7 FM_retract_7)

lemma SFM_retract_zero:
  "SFM_retract E P (replicate 7 0) =
     Inr \<lparr>SFM_E = EssentialMatrix_retract E (SFM_E P) (0, 0, 0, 0, 0),
          SFM_fa = SFM_fa P, SFM_fb = SFM_fb P, SFM_ca = SFM_ca P, SFM_cb = SFM_cb P\<rparr>"
  by (simp add: replicate_7 SFM_retract_7)

lemma FM_retract_zero_exact:
  assumes "Rot3_retract R (FM_U F) (0, 0, 0) = FM_U F"
    and "Rot3_retract R (FM_V F) (0, 0, 0) = FM_V F"
  shows "FM_retract R F (replicate 7 0) = Inr F"
  by (simp add: FM_retract_zero assms)

lemma FM_retract_zero_equals:
  assumes "0 < tol"
    and "Rot3_equals R (Rot3_retract R (FM_U F) (0, 0, 0)) (FM_U F) tol"
    and "Rot3_equals R (Rot3_retract R (FM_V F) (0, 0, 0)) (FM_V F) tol"
  shows "\<exists>G. FM_retract R F (replicate 7 0) = Inr G \<and> FM_equals R G F tol"
  by (simp add: FM_retract_zero FM_equals_def assms)

lemma SFM_retract_zero_exact:
  assumes "EssentialMatrix_retract E (SFM_E P) (0, 0, 0, 0, 0) = SFM_E P"
  shows "SFM_retract E P (replicate 7 0) = Inr P"
  by (simp add: SFM_retract_zero assms)

lemma SFM_retract_zero_equals:
  assumes "0 < tol"
    and "EssentialMatrix_equals E (EssentialMatrix_retract E (SFM_E P) (0, 0, 0, 0, 0)) (SFM_E P) tol"
  shows "\<exists>Q. SFM_retract E P (replicate 7 0) = Inr Q \<and> SFM_equals E Q P tol"
  by (simp add: SFM_retract_zero SFM_equals_def Point2_minus_def Point2_norm_def assms)

text \<open>
  C7. For both variants, retracting by the zero vector of length 7 returns the
  parameter itself, exactly, given that the leaf charts return their point at
  the zero vector; and it returns a parameter that \<open>equals\<close> accepts as equal to
  the starting point for a tolerance \<open>tol > 0\<close>, given that the equality of the
  leaves accepts what their charts return at the zero vector.
\<close>

theorem C7_retract_zero_is_identity:
  "(Rot3_retract R (FM_U F) (0, 0, 0) = FM_U F \<and> Rot3_retract R (FM_V F) (0, 0, 0) = FM_V F \<longrightarrow>
      FM_retract R F (replicate 7 0) = Inr F)
   \<and> (0 < tol \<and> Rot3_equals R (Rot3_retract R (FM_U F) (0, 0, 0)) (FM_U F) tol \<and>
      Rot3_equals R (Rot3_retract R (FM_V F) (0, 0, 0)) (FM_V F) tol \<longrightarrow>
      (\<exists>G. FM_retract R F (replicate 7 0) = Inr G \<and> FM_equals R G F tol))
   \<and> (EssentialMatrix_retract E (SFM_E P) (0, 0, 0, 0, 0) = SFM_E P \<longrightarrow>
      SFM_retract E P (replicate 7 0) = Inr P)
   \<and> (0 < tol \<and>
      EssentialMatrix_equals E (EssentialMatrix_retract E (SFM_E P) (0, 0, 0, 0, 0)) (SFM_E P) tol \<longrightarrow>
      (\<exists>Q. SFM_retract E P (replicate 7 0) = Inr Q \<and> SFM_equals E Q P tol))"
  using FM_retract_zero_exact [of R F] FM_retract_zero_equals [of tol R F]
    SFM_retract_zero_exact [of E P] SFM_retract_zero_equals [of tol E P]
  by blast

lemma first_order_retract_zero:
  "Rot3_retract first_order_Rot3 (FM_U FM_example) (0, 0, 0) = FM_U FM_example"
  "Rot3_retract first_order_Rot3 (FM_V FM_example) (0, 0, 0) = FM_V FM_example"
  "EssentialMatrix_retract first_order_EssentialMatrix (SFM_E SFM_example) (0, 0, 0, 0, 0) =
     SFM_E SFM_example"
  by (simp_all add: first_order_Rot3_def first_order_EssentialMatrix_def FM_example_def
      SFM_example_def quarter_turn_def Matrix3_Identity_def skewSymmetric_def Matrix3_plus_def
      Matrix3_times_def)

lemma Matrix3_near_refl: "0 \<le> tol \<Longrightarrow> Matrix3_near tol m m"
  by (cases m) (simp add: Matrix3_near_def Vector3_near_def)

text \<open>
  C7, at the concrete inputs with \<open>tol = 1e-9\<close>: the first-order charts return their
  point at the zero vector, and both variants return the parameter they started
  from.
\<close>

theorem C7_retract_zero_witness:
  "Rot3_retract first_order_Rot3 (FM_U FM_example) (0, 0, 0) = FM_U FM_example
   \<and> Rot3_retract first_order_Rot3 (FM_V FM_example) (0, 0, 0) = FM_V FM_example
   \<and> FM_retract first_order_Rot3 FM_example (replicate 7 0) = Inr FM_example
   \<and> (0::real) < 1 / 10 ^ 9
   \<and> Rot3_equals first_order_Rot3 (Rot3_retract first_order_Rot3 (FM_U FM_example) (0, 0, 0))
       (FM_U FM_example) (1 / 10 ^ 9)
   \<and> Rot3_equals first_order_Rot3 (Rot3_retract first_order_Rot3 (FM_V FM_example) (0, 0, 0))
       (FM_V FM_example) (1 / 10 ^ 9)
   \<and> (\<exists>G. FM_retract first_order_Rot3 FM_example (replicate 7 0) = Inr G
          \<and> FM_equals first_order_Rot3 G FM_example (1 / 10 ^ 9))
   \<and> EssentialMatrix_retract first_order_EssentialMatrix (SFM_E SFM_example) (0, 0, 0, 0, 0) =
       SFM_E SFM_example
   \<and> SFM_retract first_order_EssentialMatrix SFM_example (replicate 7 0) = Inr SFM_example
   \<and> EssentialMatrix_equals first_order_EssentialMatrix
       (EssentialMatrix_retract first_order_EssentialMatrix (SFM_E SFM_example) (0, 0, 0, 0, 0))
       (SFM_E SFM_example) (1 / 10 ^ 9)
   \<and> (\<exists>Q. SFM_retract first_order_EssentialMatrix SFM_example (replicate 7 0) = Inr Q
          \<and> SFM_equals first_order_EssentialMatrix Q SFM_example (1 / 10 ^ 9))"
proof -
  have tol: "(0::real) < 1 / 10 ^ 9" by simp
  then have tol': "(0::real) \<le> 1 / 10 ^ 9" by simp
  have e1: "Rot3_equals first_order_Rot3 (Rot3_retract first_order_Rot3 (FM_U FM_example) (0, 0, 0))
       (FM_U FM_example) (1 / 10 ^ 9)"
    unfolding first_order_retract_zero
    using Matrix3_near_refl [OF tol'] by (simp add: first_order_Rot3_def)
  have e2: "Rot3_equals first_order_Rot3 (Rot3_retract first_order_Rot3 (FM_V FM_example) (0, 0, 0))
       (FM_V FM_example) (1 / 10 ^ 9)"
    unfolding first_order_retract_zero
    using Matrix3_near_refl [OF tol'] by (simp add: first_order_Rot3_def)
  have e3: "EssentialMatrix_equals first_order_EssentialMatrix
       (EssentialMatrix_retract first_order_EssentialMatrix (SFM_E SFM_example) (0, 0, 0, 0, 0))
       (SFM_E SFM_example) (1 / 10 ^ 9)"
    unfolding first_order_retract_zero
    using Matrix3_near_refl [OF tol'] Vector3_near_refl [OF tol']
    by (simp add: first_order_EssentialMatrix_def split: prod.splits)
  show ?thesis
    using C7_retract_zero_is_identity
      [where R = first_order_Rot3 and F = FM_example and tol = "1 / 10 ^ 9"
         and E = first_order_EssentialMatrix and P = SFM_example]
      first_order_retract_zero tol e1 e2 e3
    by blast
qed

end
